theory Spec2Isabelle
  imports Main "HOL-Library.Multiset"
begin

section \<open>JavaScript values used by the extension\<close>

text \<open>
  JavaScript strings are modelled as \<open>string\<close>, a list of characters.
  \<open>startsWith s t\<close> is \<^verbatim>\<open>s.startsWith(t)\<close>.
\<close>

fun startsWith :: "string \<Rightarrow> string \<Rightarrow> bool" where
  "startsWith s [] = True"
| "startsWith [] (c # cs) = False"
| "startsWith (x # xs) (c # cs) = (x = c \<and> startsWith xs cs)"

text \<open>
  \<^verbatim>\<open>s.replace(pat, rep)\<close> with a string pattern: the first occurrence of \<open>pat\<close>
  in \<open>s\<close> is replaced, and \<open>s\<close> is returned as it is when there is none. The only
  replacement text the extension passes is \<^verbatim>\<open>"~"\<close>, which holds no \<^verbatim>\<open>$\<close> pattern.
\<close>

fun String_replace :: "string \<Rightarrow> string \<Rightarrow> string \<Rightarrow> string" where
  "String_replace [] pat rep = (if pat = [] then rep else [])"
| "String_replace (c # cs) pat rep =
     (if startsWith (c # cs) pat then rep @ drop (length pat) (c # cs)
      else c # String_replace cs pat rep)"

text \<open>
  \<^verbatim>\<open>array.indexOf(x)\<close>: the first index at which \<open>x\<close> stands, or \<open>-1\<close>.
\<close>

fun indexOf :: "'a list \<Rightarrow> 'a \<Rightarrow> int" where
  "indexOf [] x = - 1"
| "indexOf (y # ys) x =
     (if y = x then 0 else (let i = indexOf ys x in if i = - 1 then - 1 else i + 1))"

text \<open>
  \<^verbatim>\<open>array.splice(start, 1)\<close>: one element is removed at \<open>start\<close>; a negative
  \<open>start\<close> counts from the end, and a \<open>start\<close> past the end removes nothing.
\<close>

definition splice_one :: "'a list \<Rightarrow> int \<Rightarrow> 'a list" where
  "splice_one xs start =
     (let len = int (length xs);
          from = (if start < 0 then max (len + start) 0 else min start len)
      in take (nat from) xs @ drop (nat from + 1) xs)"

text \<open>
  The decimal text of an integer, as a template literal prints a whole number
  (every number printed here is a count of days, weeks, months or years between two
  time values, far below the magnitude at which JavaScript switches to exponents).
\<close>

definition decimal_digits :: string where
  "decimal_digits = ''0123456789''"

fun string_of_nat :: "nat \<Rightarrow> string" where
  "string_of_nat n =
     (if n < 10 then [decimal_digits ! n]
      else string_of_nat (n div 10) @ [decimal_digits ! (n mod 10)])"

declare string_of_nat.simps [simp del]

definition Number_toString :: "int \<Rightarrow> string" where
  "Number_toString i = (if i < 0 then CHR ''-'' # string_of_nat (nat (- i)) else string_of_nat (nat i))"

section \<open>Display formatting (utils.ts)\<close>

text \<open>
  \<^verbatim>\<open>formatDisplayPath(path)\<close>; the result of \<^verbatim>\<open>homedir()\<close> is the parameter
  \<open>home\<close>.
\<close>

definition formatDisplayPath :: "string \<Rightarrow> string \<Rightarrow> string" where
  "formatDisplayPath home path =
     (if startsWith path home then String_replace path home ''~'' else path)"

text \<open>
  \<^verbatim>\<open>markerTypes\<close> is an object literal, so \<^verbatim>\<open>markerTypes[marker]\<close> finds its
  fourteen own properties first and then the properties every object inherits from
  \<^verbatim>\<open>Object.prototype\<close>. An inherited member is a function (for \<^verbatim>\<open>__proto__\<close> the
  prototype object itself), not a string.
\<close>

datatype js_value = JString string | ObjectPrototypeMember string

definition markerTypes :: "(string \<times> string) list" where
  "markerTypes =
     [(''.git'', ''git''),
      (''package.json'', ''npm''),
      (''Cargo.toml'', ''cargo''),
      (''go.mod'', ''go''),
      (''pyproject.toml'', ''python''),
      (''Makefile'', ''make''),
      (''flake.nix'', ''nix''),
      (''composer.json'', ''php''),
      (''build.gradle'', ''gradle''),
      (''pom.xml'', ''maven''),
      (''Gemfile'', ''ruby''),
      (''mix.exs'', ''elixir''),
      (''deno.json'', ''deno''),
      (''pubspec.yaml'', ''dart'')]"

definition Object_prototype :: "string list" where
  "Object_prototype =
     [''constructor'', ''__defineGetter__'', ''__defineSetter__'', ''hasOwnProperty'',
      ''__lookupGetter__'', ''__lookupSetter__'', ''isPrototypeOf'',
      ''propertyIsEnumerable'', ''toString'', ''valueOf'', ''__proto__'',
      ''toLocaleString'']"

text \<open>Property lookup; \<open>None\<close> is \<^verbatim>\<open>undefined\<close>.\<close>

definition markerTypes_get :: "string \<Rightarrow> js_value option" where
  "markerTypes_get key =
     (case map_of markerTypes key of
        Some v \<Rightarrow> Some (JString v)
      | None \<Rightarrow> if key \<in> set Object_prototype then Some (ObjectPrototypeMember key) else None)"

fun truthy :: "js_value option \<Rightarrow> bool" where
  "truthy None = False"
| "truthy (Some (JString s)) = (s \<noteq> [])"
| "truthy (Some (ObjectPrototypeMember k)) = True"

definition formatProjectType :: "string \<Rightarrow> js_value" where
  "formatProjectType marker =
     (case markerTypes_get marker of
        None \<Rightarrow> JString marker
      | Some v \<Rightarrow> if truthy (Some v) then v else JString marker)"

section \<open>Relative dates (search view)\<close>

text \<open>
  \<^verbatim>\<open>formatDate(date)\<close>. Time values are whole milliseconds; \<open>now\<close> is the time value
  of \<^verbatim>\<open>new Date()\<close> and \<open>None\<close> is an undefined date. \<^verbatim>\<open>Math.floor\<close> of the
  quotient is \<open>div\<close> on \<open>int\<close>, which rounds down.
\<close>

definition formatDate :: "int \<Rightarrow> int option \<Rightarrow> string" where
  "formatDate now date =
     (case date of
        None \<Rightarrow> ''''
      | Some t \<Rightarrow>
          (let diffMs = now - t;
               diffDays = diffMs div (1000 * 60 * 60 * 24)
           in if diffDays = 0 then ''Today''
              else if diffDays = 1 then ''Yesterday''
              else if diffDays < 7 then Number_toString diffDays @ '' days ago''
              else if diffDays < 30 then Number_toString (diffDays div 7) @ '' weeks ago''
              else if diffDays < 365 then Number_toString (diffDays div 30) @ '' months ago''
              else Number_toString (diffDays div 365) @ '' years ago''))"

section \<open>The host: persisted items, toasts, console\<close>

text \<open>
  A value thrown or a rejection: an instance of \<^verbatim>\<open>Error\<close> with its message, or
  any other value.
\<close>

datatype thrown = Error string | NonError

text \<open>
  A string held by \<^verbatim>\<open>LocalStorage\<close> is represented by what \<^verbatim>\<open>JSON.parse\<close> makes
  of it: the empty string, a text the parser rejects (with the message of its
  \<^verbatim>\<open>SyntaxError\<close>), or the text of a value of the type the reader declares.
  \<^verbatim>\<open>JSON.stringify\<close> of an array of strings, or of an array of
  \<^verbatim>\<open>{path, lastAccessed}\<close> objects, is a text that parses back to the same value.
\<close>

datatype 'a item = EmptyString | Malformed string | Stringified 'a

definition JSON_parse :: "'a item \<Rightarrow> thrown + 'a" where
  "JSON_parse text =
     (case text of
        EmptyString \<Rightarrow> Inl (Error ''Unexpected end of JSON input'')
      | Malformed msg \<Rightarrow> Inl (Error msg)
      | Stringified v \<Rightarrow> Inr v)"

definition JSON_stringify :: "'a \<Rightarrow> 'a item" where
  "JSON_stringify v = Stringified v"

text \<open>
  A project record of the discovery library, with the fields the extension reads, and
  an entry of the recent-projects list.
\<close>

record project =
  path :: string
  name :: string
  marker :: string
  icon :: "string option"

record recent =
  path :: string
  lastAccessed :: int

datatype toast_style = Success | Failure

record toast =
  style :: toast_style
  title :: string
  message :: "string option"

text \<open>
  The two keys of \<^verbatim>\<open>STORAGE_KEYS\<close> are the two storage fields: \<open>pj_favorites\<close> is
  the item under \<^verbatim>\<open>"pj-favorites"\<close> and \<open>pj_recent_projects\<close> the item under
  \<^verbatim>\<open>"pj-recent-projects"\<close>; \<open>None\<close> is a missing key. \<open>setItem_fault\<close> is the
  rejection \<^verbatim>\<open>LocalStorage.setItem\<close> answers with, if any. \<open>toasts\<close> are the
  notifications shown so far and \<open>console_error\<close> the calls of \<^verbatim>\<open>console.error\<close>.
\<close>

record host =
  pj_favorites :: "string list item option"
  pj_recent_projects :: "recent list item option"
  setItem_fault :: "thrown option"
  toasts :: "toast list"
  console_error :: "(string \<times> thrown) list"

definition setItem_FAVORITES :: "string list item \<Rightarrow> host \<Rightarrow> (thrown + unit) \<times> host" where
  "setItem_FAVORITES text h =
     (case setItem_fault h of
        Some e \<Rightarrow> (Inl e, h)
      | None \<Rightarrow> (Inr (), h\<lparr>pj_favorites := Some text\<rparr>))"

definition setItem_RECENT_PROJECTS :: "recent list item \<Rightarrow> host \<Rightarrow> (thrown + unit) \<times> host" where
  "setItem_RECENT_PROJECTS text h =
     (case setItem_fault h of
        Some e \<Rightarrow> (Inl e, h)
      | None \<Rightarrow> (Inr (), h\<lparr>pj_recent_projects := Some text\<rparr>))"

definition showToast :: "toast \<Rightarrow> host \<Rightarrow> host" where
  "showToast t h = h\<lparr>toasts := toasts h @ [t]\<rparr>"

definition console_error_call :: "string \<Rightarrow> thrown \<Rightarrow> host \<Rightarrow> host" where
  "console_error_call text e h = h\<lparr>console_error := console_error h @ [(text, e)]\<rparr>"

text \<open>\<^verbatim>\<open>error instanceof Error ? error.message : "Unknown error"\<close>\<close>

fun error_message :: "thrown \<Rightarrow> string" where
  "error_message (Error msg) = msg"
| "error_message NonError = ''Unknown error''"

section \<open>Favorites and recent projects (utils.ts)\<close>

text \<open>
  An async function returns \<open>Inr v\<close> when its promise resolves to \<open>v\<close> and
  \<open>Inl e\<close> when it rejects with \<open>e\<close>. Each function is its \<^verbatim>\<open>try\<close> block
  (\<open>_try\<close>) under its \<^verbatim>\<open>catch\<close>. \<^verbatim>\<open>stored ? JSON.parse(stored) : []\<close> takes the
  empty array for a missing key and for the empty string.
\<close>

definition getFavorites_try :: "host \<Rightarrow> thrown + string list" where
  "getFavorites_try h =
     (case pj_favorites h of
        None \<Rightarrow> Inr []
      | Some stored \<Rightarrow> if stored = EmptyString then Inr [] else JSON_parse stored)"

definition getFavorites :: "host \<Rightarrow> thrown + string list" where
  "getFavorites h = (case getFavorites_try h of Inl e \<Rightarrow> Inr [] | Inr v \<Rightarrow> Inr v)"

definition toggleFavorite_try :: "string \<Rightarrow> host \<Rightarrow> (thrown + bool) \<times> host" where
  "toggleFavorite_try projectPath h =
     (case getFavorites h of
        Inl e \<Rightarrow> (Inl e, h)
      | Inr favorites \<Rightarrow>
          (let index = indexOf favorites projectPath in
           if index = - 1 then
             (case setItem_FAVORITES (JSON_stringify (favorites @ [projectPath])) h of
                (Inl e, h1) \<Rightarrow> (Inl e, h1)
              | (Inr u, h1) \<Rightarrow>
                  (Inr True,
                   showToast \<lparr>style = Success, title = ''Added to Favorites'', message = None\<rparr> h1))
           else
             (case setItem_FAVORITES (JSON_stringify (splice_one favorites index)) h of
                (Inl e, h1) \<Rightarrow> (Inl e, h1)
              | (Inr u, h1) \<Rightarrow>
                  (Inr False,
                   showToast \<lparr>style = Success, title = ''Removed from Favorites'', message = None\<rparr> h1))))"

definition toggleFavorite :: "string \<Rightarrow> host \<Rightarrow> (thrown + bool) \<times> host" where
  "toggleFavorite projectPath h =
     (case toggleFavorite_try projectPath h of
        (Inl error, h1) \<Rightarrow>
          (Inr False,
           showToast \<lparr>style = Failure, title = ''Failed to update favorites'',
                      message = Some (error_message error)\<rparr> h1)
      | (Inr b, h1) \<Rightarrow> (Inr b, h1))"

definition getRecentProjects_try :: "host \<Rightarrow> thrown + recent list" where
  "getRecentProjects_try h =
     (case pj_recent_projects h of
        None \<Rightarrow> Inr []
      | Some stored \<Rightarrow> if stored = EmptyString then Inr [] else JSON_parse stored)"

definition getRecentProjects :: "host \<Rightarrow> thrown + recent list" where
  "getRecentProjects h = (case getRecentProjects_try h of Inl e \<Rightarrow> Inr [] | Inr v \<Rightarrow> Inr v)"

text \<open>\<open>now\<close> is the value of \<^verbatim>\<open>Date.now()\<close>.\<close>

definition addToRecentProjects_try :: "string \<Rightarrow> int \<Rightarrow> host \<Rightarrow> (thrown + unit) \<times> host" where
  "addToRecentProjects_try projectPath now h =
     (case getRecentProjects h of
        Inl e \<Rightarrow> (Inl e, h)
      | Inr recent \<Rightarrow>
          (let filtered = filter (\<lambda>p. recent.path p \<noteq> projectPath) recent;
               unshifted = \<lparr>path = projectPath, lastAccessed = now\<rparr> # filtered;
               trimmed = take 10 unshifted
           in setItem_RECENT_PROJECTS (JSON_stringify trimmed) h))"

definition addToRecentProjects :: "string \<Rightarrow> int \<Rightarrow> host \<Rightarrow> (thrown + unit) \<times> host" where
  "addToRecentProjects projectPath now h =
     (case addToRecentProjects_try projectPath now h of
        (Inl error, h1) \<Rightarrow>
          (Inr (), console_error_call ''Failed to update recent projects:'' error h1)
      | (Inr u, h1) \<Rightarrow> (Inr (), h1))"

text \<open>
  A host that has shown no toast and logged nothing, with the given items under the two
  keys and the given answer to writes.
\<close>

definition fresh_host ::
  "string list item option \<Rightarrow> recent list item option \<Rightarrow> thrown option \<Rightarrow> host" where
  "fresh_host favorites recent fault =
     \<lparr>pj_favorites = favorites, pj_recent_projects = recent, setItem_fault = fault,
      toasts = [], console_error = []\<rparr>"

text \<open>Opening projects one after the other, each at its own time.\<close>

fun addToRecentProjects_each :: "(string \<times> int) list \<Rightarrow> host \<Rightarrow> host" where
  "addToRecentProjects_each [] h = h"
| "addToRecentProjects_each ((p, now) # rest) h =
     addToRecentProjects_each rest (snd (addToRecentProjects p now h))"

text \<open>
  The hosts the extension can bring about: it starts from a store whose favorites read
  as empty, and from then on the favorites are toggled, projects are opened, and the
  host may start or stop rejecting writes. \<^verbatim>\<open>toggleFavorite\<close> is the only writer of
  the favorites key.
\<close>

inductive reachable :: "host \<Rightarrow> bool" where
  initial: "getFavorites h = Inr [] \<Longrightarrow> reachable h"
| toggled: "reachable h \<Longrightarrow> reachable (snd (toggleFavorite p h))"
| opened: "reachable h \<Longrightarrow> reachable (snd (addToRecentProjects p now h))"
| fault_changed: "reachable h \<Longrightarrow> reachable (h\<lparr>setItem_fault := fault\<rparr>)"

section \<open>Quick switch ordering\<close>

text \<open>
  \<^verbatim>\<open>Array.prototype.sort\<close> with a comparator is stable, and with a consistent
  comparator its result is the one stable sorted order; it is modelled by a stable
  insertion sort (\<open>x\<close> stays before the elements it does not compare greater than).
\<close>

fun insert_sorted :: "('a \<Rightarrow> 'a \<Rightarrow> int) \<Rightarrow> 'a \<Rightarrow> 'a list \<Rightarrow> 'a list" where
  "insert_sorted cmp x [] = [x]"
| "insert_sorted cmp x (y # ys) =
     (if cmp x y \<le> 0 then x # y # ys else y # insert_sorted cmp x ys)"

definition Array_sort :: "('a \<Rightarrow> 'a \<Rightarrow> int) \<Rightarrow> 'a list \<Rightarrow> 'a list" where
  "Array_sort cmp xs = foldr (insert_sorted cmp) xs []"

text \<open>
  The comparator of \<^verbatim>\<open>loadProjects\<close> in the quick-switch command;
  \<^verbatim>\<open>String.prototype.localeCompare\<close> is the parameter \<open>localeCompare\<close>.
\<close>

definition compareProjects ::
  "(string \<Rightarrow> string \<Rightarrow> int) \<Rightarrow> string list \<Rightarrow> project \<Rightarrow> project \<Rightarrow> int" where
  "compareProjects localeCompare recentPathList a b =
     (let aRecentIndex = indexOf recentPathList (project.path a);
          bRecentIndex = indexOf recentPathList (project.path b)
      in if aRecentIndex \<noteq> - 1 \<and> bRecentIndex \<noteq> - 1 then aRecentIndex - bRecentIndex
         else if aRecentIndex \<noteq> - 1 then - 1
         else if bRecentIndex \<noteq> - 1 then 1
         else localeCompare (project.name a) (project.name b))"

definition sortedProjects ::
  "(string \<Rightarrow> string \<Rightarrow> int) \<Rightarrow> string list \<Rightarrow> project list \<Rightarrow> project list" where
  "sortedProjects localeCompare recentPathList discoveredProjects =
     Array_sort (compareProjects localeCompare recentPathList) discoveredProjects"

text \<open>
  Comparison by code units: one consistent comparator, which stands for
  \<^verbatim>\<open>localeCompare\<close> in the examples (their names are the single letters
  \<open>A\<close> to \<open>D\<close>, which it puts in alphabetical order).
\<close>

definition codeUnit :: "char \<Rightarrow> nat" where
  "codeUnit c = of_char c"

fun compareCodeUnits :: "string \<Rightarrow> string \<Rightarrow> int" where
  "compareCodeUnits [] [] = 0"
| "compareCodeUnits [] (y # ys) = - 1"
| "compareCodeUnits (x # xs) [] = 1"
| "compareCodeUnits (x # xs) (y # ys) =
     (if codeUnit x < codeUnit y then - 1
      else if codeUnit y < codeUnit x then 1
      else compareCodeUnits xs ys)"

text \<open>A project named \<open>n\<close> under \<open>/work\<close>, found by its \<open>.git\<close> marker.\<close>

definition git_project :: "string \<Rightarrow> project" where
  "git_project n = \<lparr>project.path = ''/work/'' @ n, name = n, marker = ''.git'', icon = None\<rparr>"

section \<open>Path display\<close>

lemma startsWith_take: "startsWith p h \<longleftrightarrow> take (length h) p = h"
  by (induction p h rule: startsWith.induct) auto

lemma startsWith_append: "startsWith (h @ r) h"
  by (simp add: startsWith_take)

lemma String_replace_prefix: "startsWith p h \<Longrightarrow> String_replace p h r = r @ drop (length h) p"
  by (cases p; cases h) auto

lemma formatDisplayPath_eq:
  "formatDisplayPath home p = (if startsWith p home then ''~'' @ drop (length home) p else p)"
  by (simp add: formatDisplayPath_def String_replace_prefix)

lemma formatDisplayPath_home: "formatDisplayPath home home = ''~''"
  by (simp add: formatDisplayPath_eq startsWith_take)

lemma formatDisplayPath_under_home:
  "formatDisplayPath home (home @ CHR ''/'' # rest) = CHR ''~'' # CHR ''/'' # rest"
  by (simp add: formatDisplayPath_eq startsWith_take)

lemma formatDisplayPath_outside:
  "\<not> startsWith p home \<Longrightarrow> formatDisplayPath home p = p"
  by (simp add: formatDisplayPath_eq)

text \<open>
  C1. A path equal to the home directory is shown as \<open>~\<close> and a path under it with
  \<open>~\<close> in place of the home directory (the two lemmas above); a path that only
  shares the home directory as a string prefix is meant to stay as it is, but
  \<open>/Users/alice2/x\<close> with the home directory \<open>/Users/alice\<close> is rewritten to
  \<open>~2/x\<close>.
\<close>

theorem formatDisplayPath_partial_segment:
  "formatDisplayPath ''/Users/alice'' ''/Users/alice2/x'' = ''~2/x''"
  by (simp add: formatDisplayPath_def)

section \<open>Project types\<close>

lemma formatProjectType_known:
  "formatProjectType ''.git'' = JString ''git''"
  "formatProjectType ''package.json'' = JString ''npm''"
  "formatProjectType ''Cargo.toml'' = JString ''cargo''"
  "formatProjectType ''go.mod'' = JString ''go''"
  "formatProjectType ''pyproject.toml'' = JString ''python''"
  "formatProjectType ''Makefile'' = JString ''make''"
  "formatProjectType ''flake.nix'' = JString ''nix''"
  "formatProjectType ''composer.json'' = JString ''php''"
  "formatProjectType ''build.gradle'' = JString ''gradle''"
  "formatProjectType ''pom.xml'' = JString ''maven''"
  "formatProjectType ''Gemfile'' = JString ''ruby''"
  "formatProjectType ''mix.exs'' = JString ''elixir''"
  "formatProjectType ''deno.json'' = JString ''deno''"
  "formatProjectType ''pubspec.yaml'' = JString ''dart''"
  by (simp_all add: formatProjectType_def markerTypes_get_def markerTypes_def)

lemma formatProjectType_other:
  "m \<notin> fst ` set markerTypes \<Longrightarrow> m \<notin> set Object_prototype \<Longrightarrow> formatProjectType m = JString m"
  by (simp add: formatProjectType_def markerTypes_get_def map_of_eq_None_iff[THEN iffD2])

text \<open>
  C8. The fourteen known markers are mapped to their short names and a marker that is
  neither known nor the name of a member of \<^verbatim>\<open>Object.prototype\<close> is returned as
  it is (the two lemmas above); the marker \<open>constructor\<close> is meant to be returned as
  it is too, but the lookup finds the inherited member and returns that.
\<close>

theorem formatProjectType_inherited:
  "formatProjectType ''constructor'' = ObjectPrototypeMember ''constructor''"
  by (simp add: formatProjectType_def markerTypes_get_def markerTypes_def Object_prototype_def)

section \<open>Relative dates\<close>

lemma string_of_nat_digit: "n < 10 \<Longrightarrow> string_of_nat n = [decimal_digits ! n]"
  by (simp add: string_of_nat.simps)

lemma Number_toString_3: "Number_toString 3 = ''3''"
  by (simp add: Number_toString_def string_of_nat.simps decimal_digits_def)

lemma Number_toString_examples:
  "Number_toString 0 = ''0''"
  "Number_toString 6 = ''6''"
  "Number_toString 12 = ''12''"
  "Number_toString 364 = ''364''"
  "Number_toString (- 1) = ''-1''"
  by (simp_all add: Number_toString_def string_of_nat.simps decimal_digits_def)

text \<open>
  C7. For a modification time \<open>t\<close> not later than \<open>now\<close> and \<open>d\<close> the whole days
  between them: \<open>Today\<close> for \<open>d = 0\<close>, \<open>Yesterday\<close> for \<open>d = 1\<close>, \<open>d days ago\<close>
  for \<open>2 \<le> d \<le> 6\<close>, \<open>d div 7 weeks ago\<close> for \<open>7 \<le> d \<le> 29\<close>, \<open>d div 30 months ago\<close>
  for \<open>30 \<le> d \<le> 364\<close> and \<open>d div 365 years ago\<close> from \<open>365\<close> on; three days before
  \<open>now\<close> is \<open>3 days ago\<close> and \<open>now\<close> itself is \<open>Today\<close>.
\<close>

theorem formatDate_ranges:
  assumes "t \<le> now" and d: "d = (now - t) div 86400000"
  shows "(d = 0 \<longrightarrow> formatDate now (Some t) = ''Today'') \<and>
         (d = 1 \<longrightarrow> formatDate now (Some t) = ''Yesterday'') \<and>
         (2 \<le> d \<and> d \<le> 6 \<longrightarrow> formatDate now (Some t) = Number_toString d @ '' days ago'') \<and>
         (7 \<le> d \<and> d \<le> 29 \<longrightarrow> formatDate now (Some t) = Number_toString (d div 7) @ '' weeks ago'') \<and>
         (30 \<le> d \<and> d \<le> 364 \<longrightarrow> formatDate now (Some t) = Number_toString (d div 30) @ '' months ago'') \<and>
         (365 \<le> d \<longrightarrow> formatDate now (Some t) = Number_toString (d div 365) @ '' years ago'') \<and>
         formatDate now (Some (now - 3 * 86400000)) = ''3 days ago'' \<and>
         formatDate now (Some now) = ''Today''"
proof -
  have three: "formatDate now (Some (now - 3 * 86400000)) = ''3 days ago''"
    by (simp add: formatDate_def Number_toString_3)
  have zero: "formatDate now (Some now) = ''Today''"
    by (simp add: formatDate_def)
  show ?thesis
    using three zero by (simp add: formatDate_def d Let_def)
qed

theorem formatDate_ranges_witness:
  "(1700000000000 - 45 * 86400000 - 5 :: int) \<le> 1700000000000 \<and>
   (45 :: int) = (1700000000000 - (1700000000000 - 45 * 86400000 - 5)) div 86400000 \<and>
   formatDate 1700000000000 (Some (1700000000000 - 45 * 86400000 - 5)) = ''1 months ago''"
  using formatDate_ranges [of "1700000000000 - 45 * 86400000 - 5" 1700000000000 45]
  by (simp add: Number_toString_def string_of_nat.simps decimal_digits_def)

section \<open>Favorites and recent projects\<close>

lemma indexOf_lower: "- 1 \<le> indexOf xs x"
  by (induction xs) (auto simp: Let_def)

lemma indexOf_absent: "indexOf xs x = - 1 \<longleftrightarrow> x \<notin> set xs"
proof (induction xs)
  case Nil
  show ?case by simp
next
  case (Cons y ys)
  have "indexOf ys x + 1 \<noteq> - 1"
    using indexOf_lower [of ys x] by arith
  with Cons show ?case by (auto simp: Let_def)
qed

lemma indexOf_upper: "indexOf xs x < int (length xs)"
  by (induction xs) (auto simp: Let_def)

lemma splice_one_at: "0 \<le> i \<Longrightarrow> splice_one xs i = take (nat i) xs @ drop (Suc (nat i)) xs"
  by (auto simp: splice_one_def Let_def min_def)

lemma splice_one_indexOf: "x \<in> set xs \<Longrightarrow> splice_one xs (indexOf xs x) = remove1 x xs"
proof (induction xs)
  case Nil
  then show ?case by simp
next
  case (Cons y ys)
  show ?case
  proof (cases "y = x")
    case True
    then show ?thesis by (simp add: splice_one_at)
  next
    case False
    with Cons.prems have mem: "x \<in> set ys" by simp
    then have nn: "0 \<le> indexOf ys x"
      using indexOf_lower [of ys x] indexOf_absent [of ys x] by arith
    have ne: "indexOf ys x \<noteq> - 1" using mem by (simp add: indexOf_absent)
    have "splice_one ys (indexOf ys x) = remove1 x ys" using Cons.IH mem by simp
    then have "take (nat (indexOf ys x)) ys @ drop (Suc (nat (indexOf ys x))) ys = remove1 x ys"
      using nn by (simp add: splice_one_at)
    moreover have "nat (indexOf ys x + 1) = Suc (nat (indexOf ys x))" using nn by arith
    ultimately show ?thesis
      using False nn ne by (simp add: splice_one_at Let_def)
  qed
qed

lemma getFavorites_cases:
  "getFavorites h = Inr (case pj_favorites h of Some (Stringified v) \<Rightarrow> v | _ \<Rightarrow> [])"
  by (simp add: getFavorites_def getFavorites_try_def JSON_parse_def split: option.splits item.splits)

lemma getRecentProjects_cases:
  "getRecentProjects h = Inr (case pj_recent_projects h of Some (Stringified v) \<Rightarrow> v | _ \<Rightarrow> [])"
  by (simp add: getRecentProjects_def getRecentProjects_try_def JSON_parse_def split: option.splits item.splits)

lemma toggleFavorite_add:
  assumes "setItem_fault h = None" "getFavorites h = Inr favs" "p \<notin> set favs"
  shows "toggleFavorite p h =
    (Inr True, showToast \<lparr>style = Success, title = ''Added to Favorites'', message = None\<rparr>
       (h\<lparr>pj_favorites := Some (Stringified (favs @ [p]))\<rparr>))"
  using assms
  by (simp add: toggleFavorite_def toggleFavorite_try_def setItem_FAVORITES_def JSON_stringify_def
      indexOf_absent)

lemma toggleFavorite_remove:
  assumes "setItem_fault h = None" "getFavorites h = Inr favs" "p \<in> set favs"
  shows "toggleFavorite p h =
    (Inr False, showToast \<lparr>style = Success, title = ''Removed from Favorites'', message = None\<rparr>
       (h\<lparr>pj_favorites := Some (Stringified (remove1 p favs))\<rparr>))"
  using assms
  by (simp add: toggleFavorite_def toggleFavorite_try_def setItem_FAVORITES_def JSON_stringify_def
      indexOf_absent splice_one_indexOf)

lemma toggleFavorite_fault:
  assumes "setItem_fault h = Some e"
  shows "toggleFavorite p h =
    (Inr False, showToast \<lparr>style = Failure, title = ''Failed to update favorites'',
       message = Some (error_message e)\<rparr> h)"
  using assms
  by (simp add: toggleFavorite_def toggleFavorite_try_def setItem_FAVORITES_def getFavorites_cases Let_def)

lemma getFavorites_showToast [simp]: "getFavorites (showToast t h) = getFavorites h"
  by (simp add: getFavorites_cases showToast_def)

lemma getFavorites_stored [simp]:
  "getFavorites (h\<lparr>pj_favorites := Some (Stringified v)\<rparr>) = Inr v"
  by (simp add: getFavorites_cases)

lemma setItem_fault_showToast [simp]: "setItem_fault (showToast t h) = setItem_fault h"
  by (simp add: showToast_def)

lemma toggleFavorite_result:
  assumes "setItem_fault h = None" "getFavorites h = Inr favs"
  shows "fst (toggleFavorite p h) = Inr (p \<notin> set favs)"
    and "getFavorites (snd (toggleFavorite p h)) = Inr (if p \<in> set favs then remove1 p favs else favs @ [p])"
    and "setItem_fault (snd (toggleFavorite p h)) = None"
    and "pj_recent_projects (snd (toggleFavorite p h)) = pj_recent_projects h"
  using assms toggleFavorite_add [of h favs p] toggleFavorite_remove [of h favs p]
  by (cases "p \<in> set favs"; simp add: showToast_def getFavorites_cases)+

lemma toggleFavorite_distinct:
  assumes "setItem_fault h = None" "getFavorites h = Inr favs" "distinct favs"
  shows "\<exists>favs'. getFavorites (snd (toggleFavorite p h)) = Inr favs' \<and> distinct favs'"
  using toggleFavorite_result(2) [OF assms(1,2), of p] assms(3) by simp

lemma count_le_one_remove1:
  "length (filter (\<lambda>q. q = p) favs) \<le> 1 \<Longrightarrow> p \<notin> set (remove1 p favs)"
proof (induction favs)
  case Nil
  then show ?case by simp
next
  case (Cons a favs)
  show ?case
  proof (cases "a = p")
    case True
    with Cons.prems have "filter (\<lambda>q. q = p) favs = []" by simp
    then have "p \<notin> set favs" by (auto simp: filter_empty_conv)
    with True show ?thesis by simp
  next
    case False
    with Cons show ?thesis by simp
  qed
qed

lemma set_remove1_once:
  "length (filter (\<lambda>q. q = p) favs) \<le> 1 \<Longrightarrow> p \<in> set favs \<Longrightarrow> insert p (set (remove1 p favs)) = set favs"
  by (induction favs) (auto split: if_splits)

lemma addToRecentProjects_stored:
  assumes "setItem_fault h = None" "getRecentProjects h = Inr recent"
  shows "addToRecentProjects p now h =
    (Inr (), h\<lparr>pj_recent_projects := Some (Stringified
       (take 10 (\<lparr>path = p, lastAccessed = now\<rparr> # filter (\<lambda>e. recent.path e \<noteq> p) recent)))\<rparr>)"
  using assms
  by (simp add: addToRecentProjects_def addToRecentProjects_try_def setItem_RECENT_PROJECTS_def
      JSON_stringify_def)

lemma addToRecentProjects_fault:
  assumes "setItem_fault h = Some e"
  shows "addToRecentProjects p now h =
    (Inr (), console_error_call ''Failed to update recent projects:'' e h)"
  using assms
  by (simp add: addToRecentProjects_def addToRecentProjects_try_def setItem_RECENT_PROJECTS_def
      getRecentProjects_cases)

lemma getRecentProjects_stored [simp]:
  "getRecentProjects (h\<lparr>pj_recent_projects := Some (Stringified v)\<rparr>) = Inr v"
  by (simp add: getRecentProjects_cases)

lemma addToRecentProjects_result:
  assumes "setItem_fault h = None" "getRecentProjects h = Inr recent"
  shows "getRecentProjects (snd (addToRecentProjects p now h)) =
      Inr (take 10 (\<lparr>path = p, lastAccessed = now\<rparr> # filter (\<lambda>e. recent.path e \<noteq> p) recent))"
    and "setItem_fault (snd (addToRecentProjects p now h)) = None"
  using assms by (simp_all add: addToRecentProjects_stored)

lemma take_append_take: "take n (xs @ take n ys) = take n (xs @ ys)"
  by (cases "n \<le> length xs") (simp_all add: not_le)

lemma addToRecentProjects_each_distinct:
  assumes "setItem_fault h = None" "getRecentProjects h = Inr recent"
    and "distinct (map fst ps)" "set (map fst ps) \<inter> set (map recent.path recent) = {}"
    and "length recent \<le> 10"
  shows "getRecentProjects (addToRecentProjects_each ps h) =
    Inr (take 10 (rev (map (\<lambda>(p, now). \<lparr>path = p, lastAccessed = now\<rparr>) ps) @ recent))"
  using assms
proof (induction ps arbitrary: h recent)
  case Nil
  then show ?case by simp
next
  case (Cons a ps)
  obtain p now where a: "a = (p, now)" by (cases a)
  let ?h1 = "snd (addToRecentProjects p now h)"
  let ?e = "\<lparr>path = p, lastAccessed = now\<rparr>"
  have fresh: "filter (\<lambda>e. recent.path e \<noteq> p) recent = recent"
    using Cons.prems(4) a by (auto simp: filter_id_conv)
  have stored1: "getRecentProjects ?h1 = Inr (take 10 (?e # recent))"
    using addToRecentProjects_result(1) [OF Cons.prems(1,2), of p now] fresh by simp
  have ok1: "setItem_fault ?h1 = None"
    using addToRecentProjects_result(2) [OF Cons.prems(1,2)] .
  have d: "distinct (map fst ps)" using Cons.prems(3) by simp
  have "set (take 10 (?e # recent)) \<subseteq> insert ?e (set recent)"
    using set_take_subset [of 10 "?e # recent"] by simp
  then have sub: "recent.path ` set (take 10 (?e # recent)) \<subseteq> insert p (recent.path ` set recent)"
    by (metis image_mono image_insert recent.select_convs(1))
  have "fst ` set ps \<inter> insert p (recent.path ` set recent) = {}"
    using Cons.prems(3,4) a by auto
  with sub have "fst ` set ps \<inter> recent.path ` set (take 10 (?e # recent)) = {}"
    by blast
  then have disj: "set (map fst ps) \<inter> set (map recent.path (take 10 (?e # recent))) = {}"
    by (simp only: set_map)
  have len: "length (take 10 (?e # recent)) \<le> 10" by simp
  let ?f = "\<lambda>(p, now). \<lparr>path = p, lastAccessed = now\<rparr>"
  have rest: "getRecentProjects (addToRecentProjects_each ps ?h1) =
      Inr (take 10 (rev (map ?f ps) @ take 10 (?e # recent)))"
    using Cons.IH [OF ok1 stored1 d disj len] .
  have first: "addToRecentProjects_each (a # ps) h = addToRecentProjects_each ps ?h1"
    by (simp add: a)
  have lists: "rev (map ?f (a # ps)) @ recent = rev (map ?f ps) @ (?e # recent)"
    by (simp add: a)
  show ?case
    unfolding first lists using rest take_append_take [of 10 "rev (map ?f ps)" "?e # recent"]
    by (simp only:)
qed

lemma getFavorites_toggleFavorite:
  assumes "getFavorites h = Inr favs"
  shows "getFavorites (snd (toggleFavorite p h)) =
    Inr (if setItem_fault h = None then (if p \<in> set favs then remove1 p favs else favs @ [p]) else favs)"
proof (cases "setItem_fault h")
  case None
  then show ?thesis using toggleFavorite_result(2) [OF None assms, of p] by simp
next
  case (Some e)
  then show ?thesis using assms by (simp add: toggleFavorite_fault)
qed

lemma getFavorites_addToRecentProjects:
  "getFavorites (snd (addToRecentProjects p now h)) = getFavorites h"
proof (cases "setItem_fault h")
  case None
  obtain recent where "getRecentProjects h = Inr recent"
    by (simp add: getRecentProjects_cases)
  then show ?thesis
    using None by (simp add: addToRecentProjects_stored getFavorites_cases)
next
  case (Some e)
  then show ?thesis
    by (simp add: addToRecentProjects_fault console_error_call_def getFavorites_cases)
qed

lemma reachable_distinct:
  "reachable h \<Longrightarrow> \<exists>favs. getFavorites h = Inr favs \<and> distinct favs"
proof (induction rule: reachable.induct)
  case (initial h)
  then show ?case by simp
next
  case (toggled h p)
  then obtain favs where favs: "getFavorites h = Inr favs" and d: "distinct favs" by blast
  show ?case
    using getFavorites_toggleFavorite [OF favs, of p] d by simp
next
  case (opened h p now)
  then show ?case by (simp add: getFavorites_addToRecentProjects)
next
  case (fault_changed h fault)
  then show ?case by (simp add: getFavorites_cases)
qed

lemma distinct_once: "distinct favs \<Longrightarrow> length (filter (\<lambda>q. q = p) favs) \<le> 1"
  by (induction favs) (auto simp: filter_empty_conv)

text \<open>
  C2. With every write succeeding, toggling \<open>p\<close> twice gives back the same set of
  favorites; when \<open>p\<close> is absent the first call returns \<open>true\<close> and leaves \<open>p\<close> a
  member, and the second returns \<open>false\<close> and leaves \<open>p\<close> absent. The favorites are a
  set: the stored array holds no path twice, which holds on every reachable host (the
  lemma above) and after the two calls again.
\<close>

theorem toggleFavorite_twice:
  assumes ok: "setItem_fault h = None"
    and favs: "getFavorites h = Inr favs"
    and inv: "distinct favs"
    and t1: "toggleFavorite p h = (r1, h1)"
    and t2: "toggleFavorite p h1 = (r2, h2)"
  shows "(\<exists>favs2. getFavorites h2 = Inr favs2 \<and> set favs2 = set favs \<and> distinct favs2) \<and>
         (p \<notin> set favs \<longrightarrow>
            r1 = Inr True \<and> (\<exists>favs1. getFavorites h1 = Inr favs1 \<and> p \<in> set favs1) \<and>
            r2 = Inr False \<and> (\<exists>favs2. getFavorites h2 = Inr favs2 \<and> p \<notin> set favs2))"
proof -
  let ?favs1 = "if p \<in> set favs then remove1 p favs else favs @ [p]"
  let ?favs2 = "if p \<in> set ?favs1 then remove1 p ?favs1 else ?favs1 @ [p]"
  have once: "length (filter (\<lambda>q. q = p) favs) \<le> 1"
    using inv by (rule distinct_once)
  have r1: "r1 = Inr (p \<notin> set favs)" and h1: "h1 = snd (toggleFavorite p h)"
    using toggleFavorite_result(1) [OF ok favs, of p] t1 by simp_all
  have favs1: "getFavorites h1 = Inr ?favs1" and ok1: "setItem_fault h1 = None"
    using toggleFavorite_result(2,3) [OF ok favs, of p] h1 by simp_all
  have r2: "r2 = Inr (p \<notin> set ?favs1)" and h2: "h2 = snd (toggleFavorite p h1)"
    using toggleFavorite_result(1) [OF ok1 favs1, of p] t2 by simp_all
  have favs2: "getFavorites h2 = Inr ?favs2"
    using toggleFavorite_result(2) [OF ok1 favs1, of p] h2 by simp
  have restored: "set ?favs2 = set favs"
  proof (cases "p \<in> set favs")
    case True
    then show ?thesis
      using count_le_one_remove1 [OF once] set_remove1_once [OF once] by simp
  next
    case False
    then show ?thesis by (simp add: remove1_append)
  qed
  have kept: "distinct ?favs2"
    using inv by (simp add: remove1_append)
  have absent: "p \<notin> set favs \<Longrightarrow> p \<notin> set ?favs2" by (simp add: remove1_append)
  show ?thesis
    using r1 r2 favs1 favs2 restored kept absent by auto
qed

theorem toggleFavorite_twice_witness:
  "setItem_fault (fresh_host (Some (Stringified [''/work/b''])) None None) = None \<and>
   getFavorites (fresh_host (Some (Stringified [''/work/b''])) None None) = Inr [''/work/b''] \<and>
   distinct [''/work/b''] \<and>
   fst (toggleFavorite ''/work/a'' (fresh_host (Some (Stringified [''/work/b''])) None None)) = Inr True \<and>
   fst (toggleFavorite ''/work/a'' (snd (toggleFavorite ''/work/a''
      (fresh_host (Some (Stringified [''/work/b''])) None None)))) = Inr False \<and>
   getFavorites (snd (toggleFavorite ''/work/a'' (snd (toggleFavorite ''/work/a''
      (fresh_host (Some (Stringified [''/work/b''])) None None))))) = Inr [''/work/b'']"
  using toggleFavorite_twice [of
      "fresh_host (Some (Stringified [''/work/b''])) None None"
      "[''/work/b'']" "''/work/a''"
      "fst (toggleFavorite ''/work/a'' (fresh_host (Some (Stringified [''/work/b''])) None None))"
      "snd (toggleFavorite ''/work/a'' (fresh_host (Some (Stringified [''/work/b''])) None None))"
      "fst (toggleFavorite ''/work/a'' (snd (toggleFavorite ''/work/a''
         (fresh_host (Some (Stringified [''/work/b''])) None None))))"
      "snd (toggleFavorite ''/work/a'' (snd (toggleFavorite ''/work/a''
         (fresh_host (Some (Stringified [''/work/b''])) None None))))"]
  by (simp add: fresh_host_def toggleFavorite_def toggleFavorite_try_def setItem_FAVORITES_def
      JSON_stringify_def getFavorites_cases splice_one_def showToast_def)

lemma filter_take_front:
  "filter P (take n (filter (\<lambda>e. \<not> P e) xs)) = []"
  by (auto simp: filter_empty_conv dest: in_set_takeD)

lemma filter_take_rest:
  "filter (\<lambda>e. \<not> P e) (take n (filter (\<lambda>e. \<not> P e) xs)) = take n (filter (\<lambda>e. \<not> P e) xs)"
  by (auto simp: filter_id_conv dest: in_set_takeD)

text \<open>
  C3. When the write succeeds, the stored list after \<^verbatim>\<open>addToRecentProjects(p)\<close> has
  exactly one entry for \<open>p\<close>, which is first and carries the current time; the other
  entries are the first nine of the previous other entries, in their previous order;
  and the list has at most ten entries. After eleven distinct paths are added to an
  empty store, the store holds the last ten, the latest first, and the path added
  first is gone.
\<close>

theorem addToRecentProjects_front:
  assumes ok: "setItem_fault h = None"
    and recent: "getRecentProjects h = Inr recent"
    and add: "addToRecentProjects p now h = (r, h')"
  shows "(\<exists>stored. getRecentProjects h' = Inr stored \<and>
            length (filter (\<lambda>e. recent.path e = p) stored) = 1 \<and>
            take 1 stored = [\<lparr>path = p, lastAccessed = now\<rparr>] \<and>
            filter (\<lambda>e. recent.path e \<noteq> p) stored =
              take 9 (filter (\<lambda>e. recent.path e \<noteq> p) recent) \<and>
            length stored \<le> 10) \<and>
         (distinct (map fst ps) \<and> length ps = 11 \<and> setItem_fault h0 = None \<and>
          getRecentProjects h0 = Inr [] \<longrightarrow>
            getRecentProjects (addToRecentProjects_each ps h0) =
              Inr (rev (map (\<lambda>(p, now). \<lparr>path = p, lastAccessed = now\<rparr>) (tl ps))) \<and>
            fst (hd ps) \<notin> set (map fst (tl ps)))"
proof (intro conjI impI)
  let ?others = "filter (\<lambda>e. recent.path e \<noteq> p) recent"
  let ?stored = "take 10 (\<lparr>path = p, lastAccessed = now\<rparr> # ?others)"
  have h': "h' = snd (addToRecentProjects p now h)" using add by simp
  have stored: "getRecentProjects h' = Inr ?stored"
    using addToRecentProjects_result(1) [OF ok recent, of p now] h' by simp
  have shape: "?stored = \<lparr>path = p, lastAccessed = now\<rparr> # take 9 ?others" by simp
  have one: "length (filter (\<lambda>e. recent.path e = p) ?stored) = 1"
    unfolding shape using filter_take_front [of "\<lambda>e. recent.path e = p" 9 recent] by simp
  have front: "take 1 ?stored = [\<lparr>path = p, lastAccessed = now\<rparr>]"
    unfolding shape by simp
  have others: "filter (\<lambda>e. recent.path e \<noteq> p) ?stored = take 9 ?others"
    unfolding shape using filter_take_rest [of "\<lambda>e. recent.path e = p" 9 recent] by simp
  have len: "length ?stored \<le> 10" by simp
  show "\<exists>stored. getRecentProjects h' = Inr stored \<and>
            length (filter (\<lambda>e. recent.path e = p) stored) = 1 \<and>
            take 1 stored = [\<lparr>path = p, lastAccessed = now\<rparr>] \<and>
            filter (\<lambda>e. recent.path e \<noteq> p) stored =
              take 9 (filter (\<lambda>e. recent.path e \<noteq> p) recent) \<and>
            length stored \<le> 10"
    using stored one front others len by blast
next
  let ?f = "\<lambda>(p, now). \<lparr>path = p, lastAccessed = now\<rparr>"
  assume a: "distinct (map fst ps) \<and> length ps = 11 \<and> setItem_fault h0 = None \<and>
          getRecentProjects h0 = Inr []"
  then obtain x rest where ps: "ps = x # rest" and rest: "length rest = 10"
    by (cases ps) auto
  have "getRecentProjects (addToRecentProjects_each ps h0) = Inr (take 10 (rev (map ?f ps) @ []))"
    using a by (intro addToRecentProjects_each_distinct) simp_all
  moreover have "take 10 (rev (map ?f ps) @ []) = rev (map ?f rest)"
    using rest by (simp add: ps)
  ultimately show "getRecentProjects (addToRecentProjects_each ps h0) = Inr (rev (map ?f (tl ps)))"
    by (simp add: ps)
next
  assume a: "distinct (map fst ps) \<and> length ps = 11 \<and> setItem_fault h0 = None \<and>
          getRecentProjects h0 = Inr []"
  then show "fst (hd ps) \<notin> set (map fst (tl ps))"
    by (cases ps) auto
qed

theorem addToRecentProjects_front_witness:
  "setItem_fault (fresh_host None (Some (Stringified
      [\<lparr>path = ''/work/a'', lastAccessed = 1\<rparr>, \<lparr>path = ''/work/b'', lastAccessed = 2\<rparr>])) None) = None \<and>
   getRecentProjects (snd (addToRecentProjects ''/work/b'' 9 (fresh_host None (Some (Stringified
      [\<lparr>path = ''/work/a'', lastAccessed = 1\<rparr>, \<lparr>path = ''/work/b'', lastAccessed = 2\<rparr>])) None))) =
     Inr [\<lparr>path = ''/work/b'', lastAccessed = 9\<rparr>, \<lparr>path = ''/work/a'', lastAccessed = 1\<rparr>] \<and>
   distinct (map fst [(''/p/01'', 1 :: int), (''/p/02'', 2), (''/p/03'', 3), (''/p/04'', 4),
      (''/p/05'', 5), (''/p/06'', 6), (''/p/07'', 7), (''/p/08'', 8), (''/p/09'', 9),
      (''/p/10'', 10), (''/p/11'', 11)]) \<and>
   getRecentProjects (fresh_host None None None) = Inr [] \<and>
   getRecentProjects (addToRecentProjects_each
     [(''/p/01'', 1), (''/p/02'', 2), (''/p/03'', 3), (''/p/04'', 4),
      (''/p/05'', 5), (''/p/06'', 6), (''/p/07'', 7), (''/p/08'', 8), (''/p/09'', 9),
      (''/p/10'', 10), (''/p/11'', 11)] (fresh_host None None None)) =
     Inr [\<lparr>path = ''/p/11'', lastAccessed = 11\<rparr>, \<lparr>path = ''/p/10'', lastAccessed = 10\<rparr>,
          \<lparr>path = ''/p/09'', lastAccessed = 9\<rparr>, \<lparr>path = ''/p/08'', lastAccessed = 8\<rparr>,
          \<lparr>path = ''/p/07'', lastAccessed = 7\<rparr>, \<lparr>path = ''/p/06'', lastAccessed = 6\<rparr>,
          \<lparr>path = ''/p/05'', lastAccessed = 5\<rparr>, \<lparr>path = ''/p/04'', lastAccessed = 4\<rparr>,
          \<lparr>path = ''/p/03'', lastAccessed = 3\<rparr>, \<lparr>path = ''/p/02'', lastAccessed = 2\<rparr>]"
  using addToRecentProjects_front [of
      "fresh_host None (Some (Stringified
         [\<lparr>path = ''/work/a'', lastAccessed = 1\<rparr>, \<lparr>path = ''/work/b'', lastAccessed = 2\<rparr>])) None"
      "[\<lparr>path = ''/work/a'', lastAccessed = 1\<rparr>, \<lparr>path = ''/work/b'', lastAccessed = 2\<rparr>]"
      "''/work/b''" 9
      "fst (addToRecentProjects ''/work/b'' 9 (fresh_host None (Some (Stringified
         [\<lparr>path = ''/work/a'', lastAccessed = 1\<rparr>, \<lparr>path = ''/work/b'', lastAccessed = 2\<rparr>])) None))"
      "snd (addToRecentProjects ''/work/b'' 9 (fresh_host None (Some (Stringified
         [\<lparr>path = ''/work/a'', lastAccessed = 1\<rparr>, \<lparr>path = ''/work/b'', lastAccessed = 2\<rparr>])) None))"
      "[(''/p/01'', 1), (''/p/02'', 2), (''/p/03'', 3), (''/p/04'', 4),
        (''/p/05'', 5), (''/p/06'', 6), (''/p/07'', 7), (''/p/08'', 8), (''/p/09'', 9),
        (''/p/10'', 10), (''/p/11'', 11)]"
      "fresh_host None None None"]
  by (simp add: fresh_host_def getRecentProjects_cases addToRecentProjects_stored)

text \<open>
  C5. When the write fails, \<^verbatim>\<open>toggleFavorite\<close> shows a failure toast and returns
  \<open>false\<close>, whether the path was a favorite or not; \<^verbatim>\<open>addToRecentProjects\<close>
  resolves, shows no toast and only logs the error.
\<close>

theorem write_failure:
  assumes "setItem_fault h = Some e"
  shows "fst (toggleFavorite p h) = Inr False \<and>
         toasts (snd (toggleFavorite p h)) =
           toasts h @ [\<lparr>style = Failure, title = ''Failed to update favorites'',
                         message = Some (error_message e)\<rparr>] \<and>
         pj_favorites (snd (toggleFavorite p h)) = pj_favorites h \<and>
         fst (addToRecentProjects p now h) = Inr () \<and>
         toasts (snd (addToRecentProjects p now h)) = toasts h \<and>
         console_error (snd (addToRecentProjects p now h)) =
           console_error h @ [(''Failed to update recent projects:'', e)] \<and>
         pj_recent_projects (snd (addToRecentProjects p now h)) = pj_recent_projects h"
  using assms
  by (simp add: toggleFavorite_fault addToRecentProjects_fault showToast_def console_error_call_def)

theorem write_failure_witness:
  "setItem_fault (fresh_host (Some (Stringified [''/work/a''])) None (Some (Error ''quota exceeded''))) =
     Some (Error ''quota exceeded'') \<and>
   toggleFavorite ''/work/a'' (fresh_host (Some (Stringified [''/work/a''])) None (Some (Error ''quota exceeded''))) =
     (Inr False,
      \<lparr>pj_favorites = Some (Stringified [''/work/a'']), pj_recent_projects = None,
       setItem_fault = Some (Error ''quota exceeded''),
       toasts = [\<lparr>style = Failure, title = ''Failed to update favorites'',
                  message = Some ''quota exceeded''\<rparr>],
       console_error = []\<rparr>) \<and>
   toggleFavorite ''/work/b'' (fresh_host (Some (Stringified [''/work/a''])) None (Some (Error ''quota exceeded''))) =
     (Inr False,
      \<lparr>pj_favorites = Some (Stringified [''/work/a'']), pj_recent_projects = None,
       setItem_fault = Some (Error ''quota exceeded''),
       toasts = [\<lparr>style = Failure, title = ''Failed to update favorites'',
                  message = Some ''quota exceeded''\<rparr>],
       console_error = []\<rparr>) \<and>
   addToRecentProjects ''/work/b'' 9 (fresh_host (Some (Stringified [''/work/a''])) None (Some (Error ''quota exceeded''))) =
     (Inr (),
      \<lparr>pj_favorites = Some (Stringified [''/work/a'']), pj_recent_projects = None,
       setItem_fault = Some (Error ''quota exceeded''), toasts = [],
       console_error = [(''Failed to update recent projects:'', Error ''quota exceeded'')]\<rparr>)"
  using write_failure [of
      "fresh_host (Some (Stringified [''/work/a''])) None (Some (Error ''quota exceeded''))"
      "Error ''quota exceeded''" "''/work/a''" 9]
    write_failure [of
      "fresh_host (Some (Stringified [''/work/a''])) None (Some (Error ''quota exceeded''))"
      "Error ''quota exceeded''" "''/work/b''" 9]
  by (simp add: fresh_host_def toggleFavorite_fault addToRecentProjects_fault showToast_def
      console_error_call_def)

text \<open>
  C6. \<^verbatim>\<open>getFavorites\<close> and \<^verbatim>\<open>getRecentProjects\<close> always resolve, and to the
  empty array when the key is missing or the stored string does not parse.
\<close>

theorem reads_never_raise:
  "(\<exists>v. getFavorites h = Inr v) \<and> (\<exists>v. getRecentProjects h = Inr v) \<and>
   (pj_favorites h = None \<or> pj_favorites h = Some EmptyString \<or>
    pj_favorites h = Some (Malformed msg) \<longrightarrow> getFavorites h = Inr []) \<and>
   (pj_recent_projects h = None \<or> pj_recent_projects h = Some EmptyString \<or>
    pj_recent_projects h = Some (Malformed msg') \<longrightarrow> getRecentProjects h = Inr [])"
  by (auto simp: getFavorites_cases getRecentProjects_cases)

theorem reads_never_raise_witness:
  "pj_favorites (fresh_host None (Some (Malformed ''Unexpected token'')) None) = None \<and>
   pj_recent_projects (fresh_host None (Some (Malformed ''Unexpected token'')) None) =
     Some (Malformed ''Unexpected token'') \<and>
   getFavorites (fresh_host None (Some (Malformed ''Unexpected token'')) None) = Inr [] \<and>
   getRecentProjects (fresh_host None (Some (Malformed ''Unexpected token'')) None) = Inr []"
  using reads_never_raise [of "fresh_host None (Some (Malformed ''Unexpected token'')) None"
      "''Unexpected token''" "''Unexpected token''"]
  by (simp add: fresh_host_def)

text \<open>
  C10. A successful \<^verbatim>\<open>toggleFavorite(p)\<close> leaves the membership of every other path
  and the order of the other favorites as they were, leaves the recent-projects item
  as it was, and does the same whatever that item holds.
\<close>

theorem toggleFavorite_frame:
  assumes ok: "setItem_fault h = None"
    and favs: "getFavorites h = Inr favs"
    and toggle: "toggleFavorite p h = (r, h')"
  shows "(\<exists>favs'. getFavorites h' = Inr favs' \<and>
            (\<forall>q. q \<noteq> p \<longrightarrow> (q \<in> set favs' \<longleftrightarrow> q \<in> set favs)) \<and>
            filter (\<lambda>q. q \<noteq> p) favs' = filter (\<lambda>q. q \<noteq> p) favs) \<and>
         pj_recent_projects h' = pj_recent_projects h \<and>
         toggleFavorite p (h\<lparr>pj_recent_projects := other\<rparr>) =
           (r, h'\<lparr>pj_recent_projects := other\<rparr>)"
proof -
  let ?favs' = "if p \<in> set favs then remove1 p favs else favs @ [p]"
  have h': "h' = snd (toggleFavorite p h)" and r: "r = fst (toggleFavorite p h)"
    using toggle by simp_all
  have stored: "getFavorites h' = Inr ?favs'"
    using toggleFavorite_result(2) [OF ok favs, of p] h' by simp
  have others: "filter (\<lambda>q. q \<noteq> p) ?favs' = filter (\<lambda>q. q \<noteq> p) favs"
    by (induction favs) auto
  have members: "\<forall>q. q \<noteq> p \<longrightarrow> (q \<in> set ?favs' \<longleftrightarrow> q \<in> set favs)"
    by auto
  have recent: "pj_recent_projects h' = pj_recent_projects h"
    using toggleFavorite_result(4) [OF ok favs, of p] h' by simp
  have ok': "setItem_fault (h\<lparr>pj_recent_projects := other\<rparr>) = None" using ok by simp
  have favs': "getFavorites (h\<lparr>pj_recent_projects := other\<rparr>) = Inr favs"
    using favs by (simp add: getFavorites_cases)
  have unread: "toggleFavorite p (h\<lparr>pj_recent_projects := other\<rparr>) = (r, h'\<lparr>pj_recent_projects := other\<rparr>)"
  proof (cases "p \<in> set favs")
    case True
    show ?thesis
      using toggleFavorite_remove [OF ok favs True] toggleFavorite_remove [OF ok' favs' True] toggle
      by (simp add: showToast_def)
  next
    case False
    show ?thesis
      using toggleFavorite_add [OF ok favs False] toggleFavorite_add [OF ok' favs' False] toggle
      by (simp add: showToast_def)
  qed
  show ?thesis
    using stored others members recent unread by blast
qed

theorem toggleFavorite_frame_witness:
  "setItem_fault (fresh_host (Some (Stringified [''/work/a'', ''/work/b'', ''/work/c'']))
      (Some (Stringified [\<lparr>path = ''/work/b'', lastAccessed = 2\<rparr>])) None) = None \<and>
   toggleFavorite ''/work/b'' (fresh_host (Some (Stringified [''/work/a'', ''/work/b'', ''/work/c'']))
      (Some (Stringified [\<lparr>path = ''/work/b'', lastAccessed = 2\<rparr>])) None) =
     (Inr False,
      \<lparr>pj_favorites = Some (Stringified [''/work/a'', ''/work/c'']),
       pj_recent_projects = Some (Stringified [\<lparr>path = ''/work/b'', lastAccessed = 2\<rparr>]),
       setItem_fault = None,
       toasts = [\<lparr>style = Success, title = ''Removed from Favorites'', message = None\<rparr>],
       console_error = []\<rparr>)"
  using toggleFavorite_frame [of
      "fresh_host (Some (Stringified [''/work/a'', ''/work/b'', ''/work/c'']))
         (Some (Stringified [\<lparr>path = ''/work/b'', lastAccessed = 2\<rparr>])) None"
      "[''/work/a'', ''/work/b'', ''/work/c'']" "''/work/b''"
      "fst (toggleFavorite ''/work/b'' (fresh_host (Some (Stringified [''/work/a'', ''/work/b'', ''/work/c'']))
         (Some (Stringified [\<lparr>path = ''/work/b'', lastAccessed = 2\<rparr>])) None))"
      "snd (toggleFavorite ''/work/b'' (fresh_host (Some (Stringified [''/work/a'', ''/work/b'', ''/work/c'']))
         (Some (Stringified [\<lparr>path = ''/work/b'', lastAccessed = 2\<rparr>])) None))"
      None]
  by (simp add: fresh_host_def toggleFavorite_def toggleFavorite_try_def setItem_FAVORITES_def
      JSON_stringify_def getFavorites_cases splice_one_def showToast_def)

section \<open>Quick switch order\<close>

lemma mset_insert_sorted: "mset (insert_sorted cmp x ys) = add_mset x (mset ys)"
  by (induction ys) auto

lemma mset_Array_sort: "mset (Array_sort cmp xs) = mset xs"
  by (induction xs) (simp_all add: Array_sort_def mset_insert_sorted)

lemma set_insert_sorted: "set (insert_sorted cmp x ys) = insert x (set ys)"
  using mset_insert_sorted [of cmp x ys, THEN arg_cong, of set_mset] by simp

text \<open>A consistent comparator: any two elements compare, and the order is transitive.\<close>

lemma sorted_insert_sorted:
  assumes total: "\<And>a b. cmp a b \<le> 0 \<or> cmp b a \<le> 0"
    and trans: "\<And>a b c. cmp a b \<le> 0 \<Longrightarrow> cmp b c \<le> 0 \<Longrightarrow> cmp a c \<le> 0"
    and sorted: "sorted_wrt (\<lambda>a b. cmp a b \<le> 0) ys"
  shows "sorted_wrt (\<lambda>a b. cmp a b \<le> 0) (insert_sorted cmp x ys)"
  using sorted
proof (induction ys)
  case Nil
  show ?case by simp
next
  case (Cons y ys)
  show ?case
  proof (cases "cmp x y \<le> 0")
    case True
    then have "\<forall>z\<in>set ys. cmp x z \<le> 0"
      using Cons.prems trans by auto
    with True Cons.prems show ?thesis by simp
  next
    case False
    then have "cmp y x \<le> 0" using total [of x y] by simp
    with False Cons show ?thesis by (simp add: set_insert_sorted)
  qed
qed

lemma sorted_Array_sort:
  assumes "\<And>a b. cmp a b \<le> 0 \<or> cmp b a \<le> 0"
    and "\<And>a b c. cmp a b \<le> 0 \<Longrightarrow> cmp b c \<le> 0 \<Longrightarrow> cmp a c \<le> 0"
  shows "sorted_wrt (\<lambda>a b. cmp a b \<le> 0) (Array_sort cmp xs)"
proof (induction xs)
  case Nil
  show ?case by (simp add: Array_sort_def)
next
  case (Cons x xs)
  have "Array_sort cmp (x # xs) = insert_sorted cmp x (Array_sort cmp xs)"
    by (simp add: Array_sort_def)
  then show ?case
    using sorted_insert_sorted [of cmp "Array_sort cmp xs" x, OF assms Cons.IH] by simp
qed

lemma compareProjects_cases:
  "compareProjects lc recent a b =
     (if project.path a \<in> set recent \<and> project.path b \<in> set recent
        then indexOf recent (project.path a) - indexOf recent (project.path b)
      else if project.path a \<in> set recent then - 1
      else if project.path b \<in> set recent then 1
      else lc (project.name a) (project.name b))"
  by (simp add: compareProjects_def Let_def indexOf_absent)

lemma compareProjects_total:
  assumes "\<forall>x y. lc x y \<le> 0 \<or> lc y x \<le> 0"
  shows "compareProjects lc recent a b \<le> 0 \<or> compareProjects lc recent b a \<le> 0"
proof (cases "project.path a \<in> set recent")
  case a: True
  show ?thesis
  proof (cases "project.path b \<in> set recent")
    case True
    with a show ?thesis by (simp add: compareProjects_cases) arith
  next
    case False
    with a show ?thesis by (simp add: compareProjects_cases)
  qed
next
  case a: False
  show ?thesis
  proof (cases "project.path b \<in> set recent")
    case True
    with a show ?thesis by (simp add: compareProjects_cases)
  next
    case False
    have "lc (project.name a) (project.name b) \<le> 0 \<or> lc (project.name b) (project.name a) \<le> 0"
      using assms by blast
    with a False show ?thesis by (simp add: compareProjects_cases)
  qed
qed

lemma compareProjects_trans:
  assumes trans: "\<forall>x y z. lc x y \<le> 0 \<and> lc y z \<le> 0 \<longrightarrow> lc x z \<le> 0"
    and ab: "compareProjects lc recent a b \<le> 0"
    and bc: "compareProjects lc recent b c \<le> 0"
  shows "compareProjects lc recent a c \<le> 0"
proof (cases "project.path c \<in> set recent")
  case c: True
  then have b: "project.path b \<in> set recent"
    using bc by (cases "project.path b \<in> set recent") (simp_all add: compareProjects_cases)
  then have a: "project.path a \<in> set recent"
    using ab by (cases "project.path a \<in> set recent") (simp_all add: compareProjects_cases)
  have "indexOf recent (project.path a) \<le> indexOf recent (project.path b)"
    using ab a b by (simp add: compareProjects_cases)
  moreover have "indexOf recent (project.path b) \<le> indexOf recent (project.path c)"
    using bc b c by (simp add: compareProjects_cases)
  ultimately show ?thesis
    using a c by (simp add: compareProjects_cases)
next
  case c: False
  show ?thesis
  proof (cases "project.path a \<in> set recent")
    case True
    with c show ?thesis by (simp add: compareProjects_cases)
  next
    case a: False
    then have b: "project.path b \<notin> set recent"
      using ab by (cases "project.path b \<in> set recent") (simp_all add: compareProjects_cases)
    have "lc (project.name a) (project.name b) \<le> 0"
      using ab a b by (simp add: compareProjects_cases)
    moreover have "lc (project.name b) (project.name c) \<le> 0"
      using bc b c by (simp add: compareProjects_cases)
    ultimately have "lc (project.name a) (project.name c) \<le> 0"
      using trans by blast
    with a c show ?thesis by (simp add: compareProjects_cases)
  qed
qed

lemma compareCodeUnits_total: "compareCodeUnits x y \<le> 0 \<or> compareCodeUnits y x \<le> 0"
  by (induction x y rule: compareCodeUnits.induct) auto

lemma compareCodeUnits_trans:
  "compareCodeUnits x y \<le> 0 \<Longrightarrow> compareCodeUnits y z \<le> 0 \<Longrightarrow> compareCodeUnits x z \<le> 0"
proof (induction x y arbitrary: z rule: compareCodeUnits.induct)
  case 1
  then show ?case by simp
next
  case (2 y ys)
  then show ?case by (cases z) simp_all
next
  case (3 x xs)
  then show ?case by simp
next
  case (4 x xs y ys)
  show ?case
  proof (cases z)
    case Nil
    with 4 show ?thesis by simp
  next
    case (Cons w ws)
    show ?thesis
    proof (cases "codeUnit x = codeUnit y \<and> codeUnit y = codeUnit w")
      case True
      then have "compareCodeUnits xs ys \<le> 0" "compareCodeUnits ys ws \<le> 0"
        using "4.prems" Cons by simp_all
      then have "compareCodeUnits xs ws \<le> 0"
        using "4.IH" True by simp
      then show ?thesis using True Cons by simp
    next
      case False
      have "codeUnit x \<le> codeUnit y" using "4.prems"(1) by (simp split: if_splits)
      moreover have "codeUnit y \<le> codeUnit w" using "4.prems"(2) Cons by (simp split: if_splits)
      ultimately have "codeUnit x < codeUnit w" using False by arith
      then show ?thesis using Cons by simp
    qed
  qed
qed

lemma compareProjects_recent_first:
  assumes "compareProjects lc recent a b \<le> 0" "project.path b \<in> set recent"
  shows "project.path a \<in> set recent"
  using assms by (cases "project.path a \<in> set recent") (simp_all add: compareProjects_cases)

lemma compareProjects_by_index:
  assumes "compareProjects lc recent a b \<le> 0"
    "project.path a \<in> set recent" "project.path b \<in> set recent"
  shows "indexOf recent (project.path a) \<le> indexOf recent (project.path b)"
  using assms by (simp add: compareProjects_cases)

lemma compareProjects_by_name:
  assumes "compareProjects lc recent a b \<le> 0"
    "project.path a \<notin> set recent" "project.path b \<notin> set recent"
  shows "lc (project.name a) (project.name b) \<le> 0"
  using assms by (simp add: compareProjects_cases)

lemma compareCodeUnits_consistent:
  "\<forall>x y. compareCodeUnits x y \<le> 0 \<or> compareCodeUnits y x \<le> 0"
  "\<forall>x y z. compareCodeUnits x y \<le> 0 \<and> compareCodeUnits y z \<le> 0 \<longrightarrow> compareCodeUnits x z \<le> 0"
  using compareCodeUnits_total compareCodeUnits_trans by blast+

lemma sortedProjects_example:
  "\<forall>discovered \<in> set
      [[git_project ''A'', git_project ''B'', git_project ''C''],
       [git_project ''A'', git_project ''C'', git_project ''B''],
       [git_project ''B'', git_project ''A'', git_project ''C''],
       [git_project ''B'', git_project ''C'', git_project ''A''],
       [git_project ''C'', git_project ''A'', git_project ''B''],
       [git_project ''C'', git_project ''B'', git_project ''A'']].
     sortedProjects localeCompare [''/work/B'', ''/work/A''] discovered =
       [git_project ''B'', git_project ''A'', git_project ''C'']"
  by (simp add: sortedProjects_def Array_sort_def compareProjects_def git_project_def)

text \<open>
  C4. With a consistent \<^verbatim>\<open>localeCompare\<close>, in the quick-switch order no project
  whose path is in the recent list comes after one whose path is not; the recent ones
  are in ascending order of the index of their path in the recent list; and the others
  are in the order of \<^verbatim>\<open>localeCompare\<close> on their names. With the recent list
  \<open>[B, A]\<close> and the discovered projects \<open>A, B, C\<close>, in whichever order they are
  discovered, the order is \<open>[B, A, C]\<close>.
\<close>

theorem sortedProjects_order:
  assumes total: "\<forall>x y. localeCompare x y \<le> 0 \<or> localeCompare y x \<le> 0"
    and trans: "\<forall>x y z. localeCompare x y \<le> 0 \<and> localeCompare y z \<le> 0 \<longrightarrow> localeCompare x z \<le> 0"
  shows "sorted_wrt (\<lambda>a b. project.path b \<in> set recent \<longrightarrow> project.path a \<in> set recent)
           (sortedProjects localeCompare recent discovered) \<and>
         sorted_wrt (\<lambda>a b. project.path a \<in> set recent \<and> project.path b \<in> set recent \<longrightarrow>
                       indexOf recent (project.path a) \<le> indexOf recent (project.path b))
           (sortedProjects localeCompare recent discovered) \<and>
         sorted_wrt (\<lambda>a b. project.path a \<notin> set recent \<and> project.path b \<notin> set recent \<longrightarrow>
                       localeCompare (project.name a) (project.name b) \<le> 0)
           (sortedProjects localeCompare recent discovered) \<and>
         (\<forall>ds \<in> set
            [[git_project ''A'', git_project ''B'', git_project ''C''],
             [git_project ''A'', git_project ''C'', git_project ''B''],
             [git_project ''B'', git_project ''A'', git_project ''C''],
             [git_project ''B'', git_project ''C'', git_project ''A''],
             [git_project ''C'', git_project ''A'', git_project ''B''],
             [git_project ''C'', git_project ''B'', git_project ''A'']].
            sortedProjects localeCompare [''/work/B'', ''/work/A''] ds =
              [git_project ''B'', git_project ''A'', git_project ''C''])"
proof -
  let ?cmp = "compareProjects localeCompare recent"
  let ?out = "sortedProjects localeCompare recent discovered"
  have sorted: "sorted_wrt (\<lambda>a b. ?cmp a b \<le> 0) ?out"
    unfolding sortedProjects_def
  proof (rule sorted_Array_sort)
    show "?cmp a b \<le> 0 \<or> ?cmp b a \<le> 0" for a b
      by (rule compareProjects_total [OF total])
    show "?cmp a b \<le> 0 \<Longrightarrow> ?cmp b c \<le> 0 \<Longrightarrow> ?cmp a c \<le> 0" for a b c
      by (rule compareProjects_trans [OF trans])
  qed
  have first: "sorted_wrt (\<lambda>a b. project.path b \<in> set recent \<longrightarrow> project.path a \<in> set recent) ?out"
    by (rule sorted_wrt_mono_rel [OF _ sorted]) (blast intro: compareProjects_recent_first)
  have second: "sorted_wrt (\<lambda>a b. project.path a \<in> set recent \<and> project.path b \<in> set recent \<longrightarrow>
      indexOf recent (project.path a) \<le> indexOf recent (project.path b)) ?out"
    by (rule sorted_wrt_mono_rel [OF _ sorted]) (blast intro: compareProjects_by_index)
  have third: "sorted_wrt (\<lambda>a b. project.path a \<notin> set recent \<and> project.path b \<notin> set recent \<longrightarrow>
      localeCompare (project.name a) (project.name b) \<le> 0) ?out"
    by (rule sorted_wrt_mono_rel [OF _ sorted]) (blast intro: compareProjects_by_name)
  show ?thesis using first second third sortedProjects_example by (intro conjI)
qed

theorem sortedProjects_order_witness:
  "sortedProjects compareCodeUnits [''/work/B'', ''/work/A'']
     [git_project ''A'', git_project ''B'', git_project ''C''] =
     [git_project ''B'', git_project ''A'', git_project ''C'']"
  using sortedProjects_order [OF compareCodeUnits_consistent, of "[''/work/B'', ''/work/A'']"
      "[git_project ''A'', git_project ''B'', git_project ''C'']"]
  by (simp add: sortedProjects_def Array_sort_def compareProjects_def git_project_def)

text \<open>
  C9. The quick-switch order is a permutation of the discovered projects, and a recent
  path that no discovered project has is the path of no project of the result.
\<close>

theorem sortedProjects_permutation:
  "mset (sortedProjects localeCompare recent discovered) = mset discovered \<and>
   (\<forall>r\<in>set recent. r \<notin> project.path ` set discovered \<longrightarrow>
      r \<notin> project.path ` set (sortedProjects localeCompare recent discovered))"
proof -
  have m: "mset (sortedProjects localeCompare recent discovered) = mset discovered"
    by (simp add: sortedProjects_def mset_Array_sort)
  then have "set (sortedProjects localeCompare recent discovered) = set discovered"
    by (rule mset_eq_setD)
  with m show ?thesis by simp
qed

theorem sortedProjects_permutation_witness:
  "''/work/gone'' \<in> set [''/work/B'', ''/work/gone'', ''/work/A''] \<and>
   ''/work/gone'' \<notin> project.path ` set [git_project ''D'', git_project ''A'', git_project ''B'', git_project ''C''] \<and>
   sortedProjects compareCodeUnits [''/work/B'', ''/work/gone'', ''/work/A'']
     [git_project ''D'', git_project ''A'', git_project ''B'', git_project ''C''] =
     [git_project ''B'', git_project ''A'', git_project ''C'', git_project ''D'']"
  using sortedProjects_permutation [of compareCodeUnits "[''/work/B'', ''/work/gone'', ''/work/A'']"
      "[git_project ''D'', git_project ''A'', git_project ''B'', git_project ''C'']"]
  by (simp add: sortedProjects_def Array_sort_def compareProjects_def git_project_def codeUnit_def)

end
